theory Spec2Isabelle
  imports Main
begin

section \<open>The relayer bootstrap: \<open>createApp\<close>\<close>

text \<open>
  The repository's source is the bootstrap module, in two revisions: \<open>src/app.ts\<close>
  (events of the exchange contract are subscribed to directly and pushed on a
  pass-through stream) and a later one (an \<open>OrderWatcher\<close>, a Redis publisher and
  subscriber and a \<open>WebSocketNode\<close> are constructed and wired together). Both end
  with the same express application. Everything the bootstrap does to the outside
  world is recorded as an effect, in program order.
\<close>

subsection \<open>Effects\<close>

datatype level = Info | Debug | Verbose | Error

datatype event_kind = LogFill | LogCancel

text \<open>
  A log event as the exchange subscription delivers it, with the fields the callbacks
  touch: \<open>event\<close> is the event's name, \<open>type\<close> is the property the callback attaches.
  \<open>removed\<close> is the flag an Ethereum log carries once a chain reorganisation has
  retracted it; the callbacks never read it.
\<close>

record log_event =
  event :: string
  order_hash :: string
  removed :: bool
  ev_type :: "string option"

datatype effect =
    BigNumberConfig nat
  | LogMsg level string
  | ProviderStart
  | RedisCreateClient
  | PoolConnect
  | PopulateDatabase
  | GetOrders
  | WatchOrderBatch "string list"
  | SubscribeAsync event_kind
  | StreamPush log_event
  | StoreWrite string
  | BusPublish string
  | ClientSend string

subsection \<open>The event callbacks of \<open>src/app.ts\<close>\<close>

text \<open>
  \<^verbatim>\<open>ev => { logger.log('debug', 'LogFill received from 0x', ev);
           const logEvent = ev as BlockchainLogEvent;
           (logEvent as any).type = `Blockchain.${ev.event}`;
           zeroExStreamWrapper.push(logEvent); }\<close>
  and the same for \<open>LogCancel\<close>. The stream is a \<open>PassThrough\<close> on which nothing else
  is ever called: \<open>zeroExStreamWrapper.pipe(relayDatabase)\<close> is commented out, so a
  pushed event stays in the stream's buffer.
\<close>

definition received_msg :: "event_kind \<Rightarrow> string" where
  "received_msg k = (case k of LogFill \<Rightarrow> ''LogFill received from 0x''
                             | LogCancel \<Rightarrow> ''LogCancel received from 0x'')"

definition tag_event :: "log_event \<Rightarrow> log_event" where
  "tag_event ev = ev\<lparr>ev_type := Some (''Blockchain.'' @ event ev)\<rparr>"

definition on_event :: "event_kind \<Rightarrow> log_event \<Rightarrow> effect list" where
  "on_event k ev = [LogMsg Debug (received_msg k), StreamPush (tag_event ev)]"

text \<open>Running the callback on each delivered event, in order of delivery.\<close>

fun deliver :: "(event_kind \<times> log_event) list \<Rightarrow> effect list" where
  "deliver [] = []"
| "deliver ((k, ev) # evs) = on_event k ev @ deliver evs"

text \<open>What the pass-through stream holds after a run: the pushed events, oldest first.\<close>

fun stream_buffer :: "effect list \<Rightarrow> log_event list" where
  "stream_buffer [] = []"
| "stream_buffer (StreamPush ev # es) = ev # stream_buffer es"
| "stream_buffer (_ # es) = stream_buffer es"

text \<open>The steps of the pipeline after the Event Source, as effects.\<close>

fun is_store_write :: "effect \<Rightarrow> bool" where
  "is_store_write (StoreWrite _) = True"
| "is_store_write _ = False"

fun is_bus_publish :: "effect \<Rightarrow> bool" where
  "is_bus_publish (BusPublish _) = True"
| "is_bus_publish _ = False"

fun is_client_send :: "effect \<Rightarrow> bool" where
  "is_client_send (ClientSend _) = True"
| "is_client_send _ = False"

fun is_subscribe :: "effect \<Rightarrow> bool" where
  "is_subscribe (SubscribeAsync _) = True"
| "is_subscribe _ = False"

fun is_stream_push :: "effect \<Rightarrow> bool" where
  "is_stream_push (StreamPush _) = True"
| "is_stream_push _ = False"

definition full_pipeline :: "effect list \<Rightarrow> bool" where
  "full_pipeline es \<longleftrightarrow>
     list_ex is_store_write es \<and> list_ex is_bus_publish es \<and> list_ex is_client_send es"

section \<open>The order store and the order watcher\<close>

text \<open>
  The relay client (\<open>./modules/relay\<close>) and the order watcher
  (\<open>./modules/order-watcher\<close>) are imported by the bootstrap; their code is not part
  of the source at hand.
\<close>

text \<open>
  Modelled from the spec: the states of an order, of which \<open>Filled\<close>, \<open>Cancelled\<close>,
  \<open>Expired\<close> and \<open>Invalid\<close> are terminal; the types of the relay module are missing.
\<close>

datatype order_state = Open | PartiallyFilled | Filled | Cancelled | Expired | Invalid

fun terminal :: "order_state \<Rightarrow> bool" where
  "terminal Open = False"
| "terminal PartiallyFilled = False"
| "terminal _ = True"

text \<open>
  Modelled from the spec: an order row, with the signed terms the operations below read
  (\<open>hash\<close>, \<open>expiration\<close>), the derived fields \<open>remainingFillableAmount\<close> and \<open>state\<close>,
  and the references of the events already applied to it; and an \<open>OrderStateUpdate\<close>, with
  the fields the store reads (\<open>sequenceNumber\<close> and \<open>timestamp\<close> are assigned at publish
  time and play no part in the store).
\<close>

record order =
  hash :: string
  expiration :: nat
  remainingFillableAmount :: int
  state :: order_state
  applied_refs :: "string list"

record order_state_update =
  orderHash :: string
  newState :: order_state
  upd_remaining :: int
  causingEventRef :: string

type_synonym store = "string \<rightharpoonup> order"

datatype store_error = UnknownOrder | TerminalOrder | AlreadyApplied

text \<open>
  Modelled from the spec: \<open>applyStateUpdate\<close> of the Persistent Order Store, whose code
  is missing. "Conditionally updates the row: succeeds only if the order's current state
  is non-terminal and \<open>update.causingEventRef\<close> has not already been applied; returns the
  previous and new state." A refused update leaves the store as it was.
\<close>

definition applyStateUpdate ::
    "store \<Rightarrow> string \<Rightarrow> order_state_update \<Rightarrow> store \<times> (store_error + order_state \<times> order_state)" where
  "applyStateUpdate st h u =
     (case st h of
        None \<Rightarrow> (st, Inl UnknownOrder)
      | Some ord \<Rightarrow>
          if terminal (state ord) then (st, Inl TerminalOrder)
          else if causingEventRef u \<in> set (applied_refs ord) then (st, Inl AlreadyApplied)
          else (st(h \<mapsto> ord\<lparr>remainingFillableAmount := upd_remaining u,
                              state := newState u,
                              applied_refs := causingEventRef u # applied_refs ord\<rparr>),
                Inr (state ord, newState u)))"

text \<open>A sequence of updates for one order, applied in turn; refused ones change nothing.\<close>

fun applyStateUpdates :: "store \<Rightarrow> string \<Rightarrow> order_state_update list \<Rightarrow> store" where
  "applyStateUpdates st h [] = st"
| "applyStateUpdates st h (u # us) = applyStateUpdates (fst (applyStateUpdate st h u)) h us"

text \<open>
  An event reference is settled on a row when an update carrying it can no longer be
  accepted there: the row is missing or terminal, or has the reference applied.
\<close>

definition settled :: "store \<Rightarrow> string \<Rightarrow> string \<Rightarrow> bool" where
  "settled st h r \<longleftrightarrow>
     (case st h of None \<Rightarrow> True
      | Some ord \<Rightarrow> terminal (state ord) \<or> r \<in> set (applied_refs ord))"

text \<open>
  Modelled from the spec: the edges of the order state machine as the specification draws
  it, "Open \<open>\<rightarrow>\<close> PartiallyFilled \<open>\<rightarrow>\<close> Filled; Open/PartiallyFilled \<open>\<rightarrow>\<close>
  Cancelled/Expired/Invalid".
\<close>

fun dag_edge :: "order_state \<Rightarrow> order_state \<Rightarrow> bool" where
  "dag_edge Open PartiallyFilled = True"
| "dag_edge PartiallyFilled Filled = True"
| "dag_edge Open Cancelled = True"
| "dag_edge Open Expired = True"
| "dag_edge Open Invalid = True"
| "dag_edge PartiallyFilled Cancelled = True"
| "dag_edge PartiallyFilled Expired = True"
| "dag_edge PartiallyFilled Invalid = True"
| "dag_edge _ _ = False"


text \<open>
  Modelled from the spec: the invariants of the data model (section 3) that an update has
  to keep on a row. The state stays or moves along one drawn edge, and
  \<open>remainingFillableAmount\<close> is "non-negative, monotonically non-increasing".
\<close>

definition keeps_invariants :: "order \<Rightarrow> order_state_update \<Rightarrow> bool" where
  "keeps_invariants ord u \<longleftrightarrow>
     (newState u = state ord \<or> dag_edge (state ord) (newState u))
     \<and> 0 \<le> upd_remaining u \<and> upd_remaining u \<le> remainingFillableAmount ord"

datatype update_error = BreaksInvariant | Refused store_error

text \<open>
  Modelled from the spec: the one path by which an order is mutated (section 3,
  lifecycle: "only by the Watcher, via the Persistent Order Store's conditional-update
  operation"), with the invariants of the data model kept: an update that would break
  them is refused before the store is touched, any other goes to \<open>applyStateUpdate\<close>.
  The code of it is missing.
\<close>

definition applyUpdate ::
    "store \<Rightarrow> string \<Rightarrow> order_state_update \<Rightarrow> store \<times> (update_error + order_state \<times> order_state)" where
  "applyUpdate st h u =
     (case st h of
        None \<Rightarrow> (st, Inl (Refused UnknownOrder))
      | Some ord \<Rightarrow>
          if keeps_invariants ord u then
            (case applyStateUpdate st h u of
               (st', Inl e) \<Rightarrow> (st', Inl (Refused e))
             | (st', Inr r) \<Rightarrow> (st', Inr r))
          else (st, Inl BreaksInvariant))"


datatype watch_error = InvalidOrderError

text \<open>
  Modelled from the spec: what the checks of the missing watcher depend on, the clock and
  static validation (signature, amounts) as a predicate on orders; an order is already
  expired when its expiration time is not after the clock.
\<close>

record watcher_env =
  now :: nat
  static_valid :: "order \<Rightarrow> bool"

definition already_expired :: "watcher_env \<Rightarrow> order \<Rightarrow> bool" where
  "already_expired w ord \<longleftrightarrow> expiration ord \<le> now w"


text \<open>
  Modelled from the spec: \<open>watchOrderBatch\<close> of the Order Watcher, whose code is missing.
  "Begins tracking a set of non-terminal orders. Fails with \<open>InvalidOrderError\<close> for any
  order that is already expired or fails static validation (signature, amounts); valid
  orders are still accepted individually (partial success)." Only non-terminal orders
  are tracked: an order whose state is terminal is refused like an expired one. The
  result lists, order by order, the rejection or the hash now tracked; the watch set is
  the list of tracked hashes.
\<close>

definition watchOrder :: "watcher_env \<Rightarrow> string list \<Rightarrow> order \<Rightarrow> string list \<times> (watch_error + string)" where
  "watchOrder w watched ord =
     (if already_expired w ord \<or> \<not> static_valid w ord \<or> terminal (state ord)
      then (watched, Inl InvalidOrderError)
      else (List.insert (hash ord) watched, Inr (hash ord)))"

text \<open>
  Modelled from the spec: the batch is taken order by order, so that a rejected order
  does not keep the ones after it from being accepted.
\<close>

fun watchOrderBatch ::
    "watcher_env \<Rightarrow> string list \<Rightarrow> order list \<Rightarrow> string list \<times> (watch_error + string) list" where
  "watchOrderBatch w watched [] = (watched, [])"
| "watchOrderBatch w watched (ord # ords) =
     (case watchOrder w watched ord of
        (watched', r) \<Rightarrow>
          (case watchOrderBatch w watched' ords of (watched'', rs) \<Rightarrow> (watched'', r # rs)))"

section \<open>The express application\<close>

datatype http_method = GET | HEAD | POST | PUT | DELETE | OPTIONS

record request =
  req_method :: http_method
  req_path :: string

datatype json = JNum int | JStr string

datatype body = StatusText string | Text string | Json "(string \<times> json) list"

record response =
  res_status :: int
  res_body :: body

text \<open>
  An error object as the handlers see it: \<open>status\<close> may be missing (\<open>None\<close>), and
  \<open>enumerable\<close> lists its other own enumerable properties, which the spread
  \<open>{ ...error }\<close> copies. The message of an \<open>Error\<close> is not enumerable.
\<close>

record js_error =
  err_message :: string
  err_status :: "int option"
  err_enumerable :: "(string \<times> json) list"

datatype outcome = Respond response | Next | NextErr js_error

text \<open>
  A layer of the application's stack: \<open>app.use\<close> and \<open>app.get\<close> append one each.
  A layer with four parameters (\<open>handles_error\<close>) runs only while an error is pending,
  any other layer only while none is.
\<close>

record layer =
  handles_error :: bool
  applies :: "request \<Rightarrow> bool"
  run :: "js_error option \<Rightarrow> request \<Rightarrow> effect list \<times> outcome"

text \<open>Default routing of express: case-insensitive, one trailing slash allowed.\<close>

definition lower_char :: "char \<Rightarrow> char" where
  "lower_char c = (let n = (of_char c :: nat) in if 65 \<le> n \<and> n \<le> 90 then char_of (n + 32) else c)"

definition lower :: "string \<Rightarrow> string" where
  "lower s = map lower_char s"

definition strip_slash :: "string \<Rightarrow> string" where
  "strip_slash p = (if p \<noteq> [] \<and> last p = CHR ''/'' then butlast p else p)"

definition path_match :: "string \<Rightarrow> string \<Rightarrow> bool" where
  "path_match p path \<longleftrightarrow>
     lower path = lower (strip_slash p) \<or> lower path = lower (strip_slash p) @ ''/''"

definition mount_match :: "string \<Rightarrow> string \<Rightarrow> bool" where
  "mount_match p path \<longleftrightarrow>
     (let q = lower (strip_slash p); n = length q
      in take n (lower path) = q \<and> (length path = n \<or> path ! n = CHR ''/''))"

text \<open>A route registered with \<open>app.get\<close> also answers HEAD requests.\<close>

definition route_applies :: "http_method \<Rightarrow> string \<Rightarrow> request \<Rightarrow> bool" where
  "route_applies m p req \<longleftrightarrow>
     (req_method req = m \<or> (m = GET \<and> req_method req = HEAD)) \<and> path_match p (req_path req)"

definition final_status :: "js_error \<Rightarrow> int" where
  "final_status e = (case err_status e of
                       Some n \<Rightarrow> if 400 \<le> n \<and> n < 600 then n else 500
                     | None \<Rightarrow> 500)"

text \<open>
  Walking the stack for one request. With no layer left express answers by itself:
  404 when no error is pending, the error's status otherwise.
\<close>

fun dispatch :: "layer list \<Rightarrow> js_error option \<Rightarrow> request \<Rightarrow> effect list \<times> response" where
  "dispatch [] None req = ([], \<lparr>res_status = 404, res_body = Text ''Cannot handle''\<rparr>)"
| "dispatch [] (Some e) req = ([], \<lparr>res_status = final_status e, res_body = Text (err_message e)\<rparr>)"
| "dispatch (l # ls) pending req =
     (if applies l req \<and> (handles_error l \<longleftrightarrow> pending \<noteq> None) then
        (case run l pending req of
           (es, Respond r) \<Rightarrow> (es, r)
         | (es, Next) \<Rightarrow> (case dispatch ls None req of (es', r) \<Rightarrow> (es @ es', r))
         | (es, NextErr e) \<Rightarrow> (case dispatch ls (Some e) req of (es', r) \<Rightarrow> (es @ es', r)))
      else dispatch ls pending req)"

subsection \<open>The handlers written in the bootstrap\<close>

text \<open>\<^verbatim>\<open>app.get('/healthcheck', (req, res) => res.sendStatus(200))\<close>\<close>

definition healthcheck :: "js_error option \<Rightarrow> request \<Rightarrow> effect list \<times> outcome" where
  "healthcheck pending req = ([], Respond \<lparr>res_status = 200, res_body = StatusText ''OK''\<rparr>)"

text \<open>\<^verbatim>\<open>app.get('/', (req, res) => res.send('Welcome to the Conduit Relay API'))\<close>\<close>

definition welcome_route :: "js_error option \<Rightarrow> request \<Rightarrow> effect list \<times> outcome" where
  "welcome_route pending req =
     ([], Respond \<lparr>res_status = 200, res_body = Text ''Welcome to the Conduit Relay API''\<rparr>)"

text \<open>
  \<^verbatim>\<open>const err = new RoutingError('Not Found'); err.status = 404; next(err);\<close>
\<close>

text \<open>
  The class \<open>RoutingError\<close> comes from \<open>./types\<close>, which the source does not contain; it
  is taken to be an \<open>Error\<close> with a message and no enumerable property of its own.
\<close>

definition RoutingError :: "string \<Rightarrow> js_error" where
  "RoutingError msg = \<lparr>err_message = msg, err_status = None, err_enumerable = []\<rparr>"

definition not_found :: "js_error option \<Rightarrow> request \<Rightarrow> effect list \<times> outcome" where
  "not_found pending req = ([], NextErr ((RoutingError ''Not Found'')\<lparr>err_status := Some 404\<rparr>))"

text \<open>
  \<^verbatim>\<open>res.status(error.status || 500); res.json({ ...error });\<close>
  \<open>||\<close> takes its right operand when the left one is missing or is the number 0.
\<close>

definition status_or_500 :: "js_error \<Rightarrow> int" where
  "status_or_500 e = (case err_status e of None \<Rightarrow> 500 | Some n \<Rightarrow> if n = 0 then 500 else n)"

definition spread :: "js_error \<Rightarrow> (string \<times> json) list" where
  "spread e = err_enumerable e @ (case err_status e of None \<Rightarrow> [] | Some n \<Rightarrow> [(''status'', JNum n)])"

text \<open>
  A response cannot be sent with a status outside 100..999: writing it throws, inside the
  handler, and express takes the thrown error on to whatever comes after the handler.
\<close>

definition valid_status :: "int \<Rightarrow> bool" where
  "valid_status n \<longleftrightarrow> 100 \<le> n \<and> n \<le> 999"

definition invalid_status_error :: js_error where
  "invalid_status_error =
     \<lparr>err_message = ''Invalid status code'', err_status = None, err_enumerable = []\<rparr>"

definition error_handler :: "js_error option \<Rightarrow> request \<Rightarrow> effect list \<times> outcome" where
  "error_handler pending req =
     (case pending of
        Some e \<Rightarrow>
          if valid_status (status_or_500 e)
          then ([], Respond \<lparr>res_status = status_or_500 e, res_body = Json (spread e)\<rparr>)
          else ([], NextErr invalid_status_error)
      | None \<Rightarrow> ([], Next))"


text \<open>
  The middleware \<open>cors()\<close> as the package behaves with no options: an OPTIONS request
  is taken for a preflight and answered at once with status 204 and no body; any other
  request goes on.
\<close>

definition cors_default :: "js_error option \<Rightarrow> request \<Rightarrow> effect list \<times> outcome" where
  "cors_default pending req =
     (if req_method req = OPTIONS then ([], Respond \<lparr>res_status = 204, res_body = Text []\<rparr>)
      else ([], Next))"

subsection \<open>The stack that \<open>createApp\<close> builds\<close>

text \<open>
  A call that is not awaited either returns, throws at once, or returns a promise that
  is rejected later; only a throw reaches an enclosing \<open>catch\<close>.
\<close>

datatype call_outcome = Returns | Throws js_error | RejectsLater js_error

text \<open>
  What the bootstrap calls and the source does not contain: the middleware of other
  packages (\<open>express.static\<close>, \<open>morgan\<close>, \<open>helmet\<close>, \<open>cors\<close>), the REST router of
  \<open>v0ApiRouteFactory\<close>, the WebSocket handler, and the outcome of each call that can
  throw or reject (\<open>None\<close>: it succeeded). \<open>watch_batch\<close> is the outcome of awaiting
  \<open>watchOrderBatch\<close>: the rejection of its promise, if any.
\<close>

record env =
  pg_populate_database :: bool
  relay_ctor :: "js_error option"
  pool_connect :: "js_error option"
  populate :: call_outcome
  subscribe :: "event_kind \<Rightarrow> js_error option"
  get_orders :: "js_error + order list"
  watch_batch :: "js_error option"
  watcher :: watcher_env
  mw_static :: "js_error option \<Rightarrow> request \<Rightarrow> effect list \<times> outcome"
  mw_logger :: "js_error option \<Rightarrow> request \<Rightarrow> effect list \<times> outcome"
  mw_helmet :: "js_error option \<Rightarrow> request \<Rightarrow> effect list \<times> outcome"
  mw_cors :: "js_error option \<Rightarrow> request \<Rightarrow> effect list \<times> outcome"
  api_router :: "js_error option \<Rightarrow> request \<Rightarrow> effect list \<times> outcome"
  ws_accept :: "js_error option \<Rightarrow> request \<Rightarrow> effect list \<times> outcome"

definition middleware :: "(js_error option \<Rightarrow> request \<Rightarrow> effect list \<times> outcome) \<Rightarrow> layer" where
  "middleware f = \<lparr>handles_error = False, applies = (\<lambda>req. True), run = f\<rparr>"

definition error_middleware :: "(js_error option \<Rightarrow> request \<Rightarrow> effect list \<times> outcome) \<Rightarrow> layer" where
  "error_middleware f = \<lparr>handles_error = True, applies = (\<lambda>req. True), run = f\<rparr>"

definition route ::
    "http_method \<Rightarrow> string \<Rightarrow> (js_error option \<Rightarrow> request \<Rightarrow> effect list \<times> outcome) \<Rightarrow> layer" where
  "route m p f = \<lparr>handles_error = False, applies = route_applies m p, run = f\<rparr>"

definition mount :: "string \<Rightarrow> (js_error option \<Rightarrow> request \<Rightarrow> effect list \<times> outcome) \<Rightarrow> layer" where
  "mount p f = \<lparr>handles_error = False, applies = (\<lambda>req. mount_match p (req_path req)), run = f\<rparr>"

text \<open>The stack of \<open>src/app.ts\<close>, in the order of its \<open>app.use\<close> and \<open>app.get\<close> calls.\<close>

definition app_layers :: "env \<Rightarrow> layer list" where
  "app_layers E =
     [ middleware (mw_static E), middleware (mw_logger E), middleware (mw_helmet E),
       middleware (mw_cors E),
       route GET ''/healthcheck'' healthcheck,
       mount ''/api/v0'' (api_router E),
       middleware not_found,
       error_middleware error_handler ]"

text \<open>
  The stack of the later revision: it adds the welcome route and the WebSocket route,
  which \<open>express-ws\<close> registers under \<open>/ws/.websocket\<close>.
\<close>

definition app_layers_watcher :: "env \<Rightarrow> layer list" where
  "app_layers_watcher E =
     [ middleware (mw_static E), middleware (mw_logger E), middleware (mw_helmet E),
       middleware (mw_cors E),
       route GET ''/healthcheck'' healthcheck,
       route GET ''/'' welcome_route,
       mount ''/api/v0'' (api_router E),
       route GET ''/ws/.websocket'' (ws_accept E),
       middleware not_found,
       error_middleware error_handler ]"

definition handle :: "layer list \<Rightarrow> request \<Rightarrow> effect list \<times> response" where
  "handle app req = dispatch app None req"

text \<open>A request on which every middleware of the other packages calls \<open>next()\<close>.\<close>

definition passes_middleware :: "env \<Rightarrow> request \<Rightarrow> bool" where
  "passes_middleware E req \<longleftrightarrow>
     snd (mw_static E None req) = Next \<and> snd (mw_logger E None req) = Next \<and>
     snd (mw_helmet E None req) = Next \<and> snd (mw_cors E None req) = Next"

definition middleware_effects :: "env \<Rightarrow> request \<Rightarrow> effect list" where
  "middleware_effects E req =
     fst (mw_static E None req) @ fst (mw_logger E None req) @
     fst (mw_helmet E None req) @ fst (mw_cors E None req)"


section \<open>\<open>createApp\<close>\<close>

text \<open>
  The module's top level runs when it is loaded, before anything can call \<open>createApp\<close>:
  \<^verbatim>\<open>BigNumber.config({ EXPONENTIAL_AT: 1000 });\<close>
\<close>

definition module_init :: "effect list" where
  "module_init = [BigNumberConfig 1000]"

text \<open>
  \<^verbatim>\<open>zeroEx.exchange.subscribeAsync(ExchangeEvents.LogFill, {}, ev => ...)
       .then(cancelToken => {}).catch(e => logger.error(e));\<close>
  Neither subscription is awaited: \<open>createApp\<close> makes both calls and goes on. The
  \<open>catch\<close> of a rejected subscription runs later, after \<open>createApp\<close> has returned; it
  logs the error and goes no further.
\<close>

definition subscription_rejected :: "env \<Rightarrow> event_kind \<Rightarrow> effect list" where
  "subscription_rejected E k =
     (case subscribe E k of Some e \<Rightarrow> [LogMsg Error (err_message e)] | None \<Rightarrow> [])"

definition after_createApp :: "env \<Rightarrow> effect list" where
  "after_createApp E = subscription_rejected E LogFill @ subscription_rejected E LogCancel"

text \<open>
  \<open>createApp\<close> of \<open>src/app.ts\<close>. Whatever is thrown inside the \<open>try\<close> block (by the
  constructors or by \<open>await pool.connect()\<close>) is logged and thrown again.
\<close>

definition createApp :: "env \<Rightarrow> effect list \<times> (js_error + layer list)" where
  "createApp E =
     (let pre = [LogMsg Info ''Conduit starting...'', ProviderStart];
          failed = [LogMsg Error ''Error connecting to Postgres'']
      in case relay_ctor E of
           Some e \<Rightarrow> (pre @ failed, Inl e)
         | None \<Rightarrow>
             (case pool_connect E of
                Some e \<Rightarrow> (pre @ [PoolConnect] @ failed, Inl e)
              | None \<Rightarrow>
                  (pre @ [PoolConnect, LogMsg Info ''Connected to Postres Database'',
                          SubscribeAsync LogFill, SubscribeAsync LogCancel],
                   Inr (app_layers E))))"

text \<open>Decimal digits of a number, as a template literal or \<open>toString\<close> prints it.\<close>

fun show_nat :: "nat \<Rightarrow> string" where
  "show_nat n = (if n < 10 then [char_of (48 + n)] else show_nat (n div 10) @ [char_of (48 + n mod 10)])"

declare show_nat.simps [simp del]

record running =
  app :: "layer list"
  watch_set :: "string list"

text \<open>
  \<^verbatim>\<open>if (config.PG_POPULATE_DATABASE) { populateDatabase(relayClient, zeroEx, logger); }\<close>
  The call is inside the \<open>try\<close> block and is not awaited.
\<close>

definition populate_throws :: "env \<Rightarrow> js_error option" where
  "populate_throws E =
     (if pg_populate_database E
      then (case populate E of Throws e \<Rightarrow> Some e | _ \<Rightarrow> None)
      else None)"

text \<open>
  \<open>createApp\<close> of the later revision. After the \<open>try\<close> block nothing is caught: a
  rejection of \<open>await relayClient.getOrders()\<close> or of
  \<open>await orderWatcher.watchOrderBatch(orders)\<close> rejects \<open>createApp\<close>. The watcher is
  created with nothing tracked and is handed every order \<open>getOrders\<close> returned.
\<close>

definition createApp_watcher :: "env \<Rightarrow> effect list \<times> (js_error + running)" where
  "createApp_watcher E =
     (let pre = [LogMsg Info ''Conduit starting...'', ProviderStart, RedisCreateClient,
                 RedisCreateClient, LogMsg Debug ''Connected to Redis instance''];
          failed = [LogMsg Error ''Error connecting to Postgres''];
          connected = [PoolConnect, LogMsg Debug ''Connected to Postgres database'']
      in case relay_ctor E of
           Some e \<Rightarrow> (pre @ failed, Inl e)
         | None \<Rightarrow>
             (case pool_connect E of
                Some e \<Rightarrow> (pre @ [PoolConnect] @ failed, Inl e)
              | None \<Rightarrow>
                  (case populate_throws E of
                     Some e \<Rightarrow> (pre @ connected @ [PopulateDatabase] @ failed, Inl e)
                   | None \<Rightarrow>
                    (let es = pre @ connected
                              @ (if pg_populate_database E then [PopulateDatabase] else [])
                              @ [LogMsg Debug ''Connected to order watcher'', GetOrders]
                     in case get_orders E of
                          Inl e \<Rightarrow> (es, Inl e)
                        | Inr orders \<Rightarrow>
                            (case watch_batch E of
                               Some e \<Rightarrow> (es @ [WatchOrderBatch (map hash orders)], Inl e)
                             | None \<Rightarrow>
                                 (es @ [WatchOrderBatch (map hash orders),
                                        LogMsg Debug (''Subscribed to updates for all ''
                                          @ show_nat (length orders) @ '' active orders''),
                                        LogMsg Verbose ''Configured REST endpoints'',
                                        LogMsg Verbose ''Configured WebSocket endpoints''],
                                  Inr \<lparr>app = app_layers_watcher E,
                                       watch_set =
                                         fst (watchOrderBatch (watcher E) [] orders)\<rparr>))))))"


section \<open>Rendering of amounts\<close>

text \<open>
  The module's first statement configures \<open>bignumber.js\<close>, the library every amount of
  an order is held in. A single number as \<open>EXPONENTIAL_AT\<close> sets both exponent
  limits; \<open>toString\<close> of the library prints exponential notation when the decimal
  exponent of the value is at or beyond a limit, fixed-point notation otherwise.
  Amounts are non-negative integers (token base units).
\<close>

record bn_config =
  TO_EXP_NEG :: int
  TO_EXP_POS :: int

definition bn_default :: bn_config where
  "bn_default = \<lparr>TO_EXP_NEG = -7, TO_EXP_POS = 21\<rparr>"

fun bn_apply :: "bn_config \<Rightarrow> effect list \<Rightarrow> bn_config" where
  "bn_apply c [] = c"
| "bn_apply c (BigNumberConfig v # es) = bn_apply \<lparr>TO_EXP_NEG = - int v, TO_EXP_POS = int v\<rparr> es"
| "bn_apply c (_ # es) = bn_apply c es"

definition bn_exponent :: "nat \<Rightarrow> int" where
  "bn_exponent n = int (length (show_nat n)) - 1"

definition strip_zeros :: "string \<Rightarrow> string" where
  "strip_zeros ds = rev (dropWhile (\<lambda>c. c = CHR ''0'') (rev ds))"

definition toFixedPoint :: "nat \<Rightarrow> string" where
  "toFixedPoint n = show_nat n"

definition toExponential :: "nat \<Rightarrow> string" where
  "toExponential n =
     (let ds = show_nat n; c = (if n = 0 then ds else strip_zeros ds)
      in hd c # (if tl c = [] then [] else CHR ''.'' # tl c)
           @ ''e+'' @ show_nat (nat (bn_exponent n)))"

definition toString :: "bn_config \<Rightarrow> nat \<Rightarrow> string" where
  "toString c n =
     (if bn_exponent n \<le> TO_EXP_NEG c \<or> bn_exponent n \<ge> TO_EXP_POS c
      then toExponential n else toFixedPoint n)"

section \<open>Concrete inputs\<close>

definition pass :: "js_error option \<Rightarrow> request \<Rightarrow> effect list \<times> outcome" where
  "pass pending req = ([], Next)"

definition pg_down :: js_error where
  "pg_down = \<lparr>err_message = ''connect ECONNREFUSED'', err_status = None, err_enumerable = []\<rparr>"

definition order_a :: order where
  "order_a = \<lparr>hash = ''0xa'', expiration = 200, remainingFillableAmount = 100,
               state = Open, applied_refs = []\<rparr>"

definition order_b :: order where
  "order_b = \<lparr>hash = ''0xb'', expiration = 50, remainingFillableAmount = 100,
               state = Open, applied_refs = []\<rparr>"

definition order_c :: order where
  "order_c = \<lparr>hash = ''0xc'', expiration = 300, remainingFillableAmount = 0,
               state = Filled, applied_refs = [''b7:2'']\<rparr>"

definition watcher0 :: watcher_env where
  "watcher0 = \<lparr>now = 100, static_valid = (\<lambda>ord. 0 \<le> remainingFillableAmount ord)\<rparr>"

definition env_up :: env where
  "env_up = \<lparr>pg_populate_database = False, relay_ctor = None, pool_connect = None,
             populate = Returns, subscribe = (\<lambda>k. Some pg_down),
             get_orders = Inr [order_a, order_b, order_c], watch_batch = None,
             watcher = watcher0,
             mw_static = pass, mw_logger = pass, mw_helmet = pass, mw_cors = cors_default,
             api_router = (\<lambda>pending req. ([], NextErr pg_down)), ws_accept = pass\<rparr>"







definition fill1 :: order_state_update where
  "fill1 = \<lparr>orderHash = ''0xa'', newState = PartiallyFilled, upd_remaining = 60,
             causingEventRef = ''b1:0''\<rparr>"

definition fill2 :: order_state_update where
  "fill2 = \<lparr>orderHash = ''0xa'', newState = PartiallyFilled, upd_remaining = 20,
             causingEventRef = ''b2:0''\<rparr>"



definition store0 :: store where
  "store0 = [''0xa'' \<mapsto> order_a]"

definition get_health :: request where
  "get_health = \<lparr>req_method = GET, req_path = ''/healthcheck''\<rparr>"





definition fill_ev :: log_event where
  "fill_ev = \<lparr>event = ''LogFill'', order_hash = ''0xa'', removed = False, ev_type = None\<rparr>"

section \<open>Properties\<close>

subsection \<open>Events of the exchange contract\<close>

lemma on_event_no_pipeline:
  "x \<in> set (on_event k ev) \<Longrightarrow> \<not> is_store_write x \<and> \<not> is_bus_publish x \<and> \<not> is_client_send x"
  by (auto simp: on_event_def)

lemma deliver_no_pipeline:
  "x \<in> set (deliver evs) \<Longrightarrow> \<not> is_store_write x \<and> \<not> is_bus_publish x \<and> \<not> is_client_send x"
  by (induction evs rule: deliver.induct) (auto dest: on_event_no_pipeline)

lemma deliver_append: "deliver (xs @ ys) = deliver xs @ deliver ys"
  by (induction xs rule: deliver.induct) auto

lemma stream_buffer_deliver: "stream_buffer (deliver evs) = map (\<lambda>(k, ev). tag_event ev) evs"
  by (induction evs rule: deliver.induct) (auto simp: on_event_def)

lemma deliver_exact:
  "deliver evs =
     concat (map (\<lambda>(k, ev). [LogMsg Debug (received_msg k), StreamPush (tag_event ev)]) evs)"
  by (induction evs rule: deliver.induct) (auto simp: on_event_def)

lemma createApp_watcher_no_subscription:
  "\<not> list_ex is_subscribe (fst (createApp_watcher E))
   \<and> \<not> list_ex is_stream_push (fst (createApp_watcher E))"
  by (simp add: createApp_watcher_def Let_def split: option.splits sum.splits)

lemma createApp_watcher_hands_orders:
  "relay_ctor E = None \<Longrightarrow> pool_connect E = None \<Longrightarrow> populate_throws E = None \<Longrightarrow>
   get_orders E = Inr orders \<Longrightarrow> WatchOrderBatch (map hash orders) \<in> set (fst (createApp_watcher E))"
  by (simp add: createApp_watcher_def Let_def split: option.splits)

lemma createApp_watcher_started:
  "relay_ctor E = None \<Longrightarrow> pool_connect E = None \<Longrightarrow> populate_throws E = None \<Longrightarrow>
   get_orders E = Inr orders \<Longrightarrow> watch_batch E = None \<Longrightarrow>
   snd (createApp_watcher E) =
     Inr \<lparr>app = app_layers_watcher E, watch_set = fst (watchOrderBatch (watcher E) [] orders)\<rparr>"
  by (simp add: createApp_watcher_def Let_def)

text \<open>
  C1. In \<open>src/app.ts\<close> every fill or cancel event the subscription delivers is logged
  at debug level, tagged with \<open>Blockchain.<event>\<close> and pushed on the pass-through stream,
  where it stays, and nothing else: no run of the callbacks writes to the store,
  publishes or sends to a client. In the later revision \<open>createApp\<close> subscribes to no
  event and pushes nothing on a stream itself: once the database is connected and
  \<open>getOrders\<close> has answered, it hands every order returned to \<open>watchOrderBatch\<close>, and the
  application it returns routes the WebSocket path to \<open>WebSocketNode.acceptConnection\<close>.
\<close>

theorem events_only_buffered:
  "deliver evs =
     concat (map (\<lambda>(k, ev). [LogMsg Debug (received_msg k), StreamPush (tag_event ev)]) evs)
   \<and> stream_buffer (deliver evs) = map (\<lambda>(k, ev). tag_event ev) evs
   \<and> \<not> list_ex is_store_write (deliver evs)
   \<and> \<not> list_ex is_bus_publish (deliver evs)
   \<and> \<not> list_ex is_client_send (deliver evs)
   \<and> \<not> list_ex is_subscribe (fst (createApp_watcher E))
   \<and> \<not> list_ex is_stream_push (fst (createApp_watcher E))
   \<and> (relay_ctor E = None \<and> pool_connect E = None \<and> populate_throws E = None
        \<and> get_orders E = Inr orders \<longrightarrow>
      WatchOrderBatch (map hash orders) \<in> set (fst (createApp_watcher E)))
   \<and> (relay_ctor E = None \<and> pool_connect E = None \<and> populate_throws E = None
        \<and> get_orders E = Inr orders \<and> watch_batch E = None \<longrightarrow>
      snd (createApp_watcher E) =
        Inr \<lparr>app = app_layers_watcher E,
             watch_set = fst (watchOrderBatch (watcher E) [] orders)\<rparr>)
   \<and> route GET ''/ws/.websocket'' (ws_accept E) \<in> set (app_layers_watcher E)"
proof -
  have "\<not> list_ex is_store_write (deliver evs) \<and> \<not> list_ex is_bus_publish (deliver evs)
        \<and> \<not> list_ex is_client_send (deliver evs)"
    using deliver_no_pipeline[of _ evs] by (auto simp: list_ex_iff)
  moreover have "route GET ''/ws/.websocket'' (ws_accept E) \<in> set (app_layers_watcher E)"
    by (simp add: app_layers_watcher_def)
  ultimately show ?thesis
    using deliver_exact[of evs] stream_buffer_deliver[of evs] createApp_watcher_no_subscription[of E]
      createApp_watcher_hands_orders[of E orders] createApp_watcher_started[of E orders]
    by blast
qed

theorem events_only_buffered_witness:
  "relay_ctor env_up = None \<and> pool_connect env_up = None \<and> populate_throws env_up = None
   \<and> get_orders env_up = Inr [order_a, order_b, order_c] \<and> watch_batch env_up = None
   \<and> deliver [(LogFill, fill_ev)] =
       [LogMsg Debug ''LogFill received from 0x'',
        StreamPush (fill_ev\<lparr>ev_type := Some ''Blockchain.LogFill''\<rparr>)]
   \<and> WatchOrderBatch [''0xa'', ''0xb'', ''0xc''] \<in> set (fst (createApp_watcher env_up))
   \<and> snd (createApp_watcher env_up) =
       Inr \<lparr>app = app_layers_watcher env_up,
            watch_set = fst (watchOrderBatch (watcher env_up) [] [order_a, order_b, order_c])\<rparr>"
  using events_only_buffered[of "[(LogFill, fill_ev)]" env_up "[order_a, order_b, order_c]"]
  by (simp add: env_up_def populate_throws_def fill_ev_def tag_event_def received_msg_def
        order_a_def order_b_def order_c_def)

theorem fill_event_not_piped_counterexample:
  "\<not> full_pipeline (deliver [(LogFill,
      \<lparr>event = ''LogFill'', order_hash = ''0xa'', removed = False, ev_type = None\<rparr>)])"
  by (simp add: full_pipeline_def on_event_def)

text \<open>
  C4. In \<open>src/app.ts\<close> an event delivered with the retraction flag set is
  handled as any other: after whatever was delivered before, it adds one log line and one
  push of the tagged event, flag included, and nothing else; since no event reaches the
  store, no stored state derives from a retracted one.
\<close>

theorem retracted_event_only_buffered:
  "deliver (evs @ [(k, ev\<lparr>removed := True\<rparr>)]) =
     deliver evs @ [LogMsg Debug (received_msg k), StreamPush ((tag_event ev)\<lparr>removed := True\<rparr>)]
   \<and> \<not> list_ex is_store_write (deliver (evs @ [(k, ev\<lparr>removed := True\<rparr>)]))"
  using deliver_no_pipeline[of _ "evs @ [(k, ev\<lparr>removed := True\<rparr>)]"]
  by (auto simp: deliver_append on_event_def tag_event_def list_ex_iff)

theorem retraction_no_update_counterexample:
  "\<not> list_ex is_bus_publish (deliver
      [(LogCancel, \<lparr>event = ''LogCancel'', order_hash = ''0xa'', removed = False, ev_type = None\<rparr>),
       (LogCancel, \<lparr>event = ''LogCancel'', order_hash = ''0xa'', removed = True, ev_type = None\<rparr>)])"
  by (simp add: on_event_def)

subsection \<open>The store\<close>

lemma settled_after: "settled (fst (applyStateUpdate st h u)) h (causingEventRef u)"
  by (auto simp: settled_def applyStateUpdate_def split: option.splits)

lemma settled_step: "settled st h r \<Longrightarrow> settled (fst (applyStateUpdate st h u)) h r"
  by (auto simp: settled_def applyStateUpdate_def split: option.splits)

lemma settled_steps: "settled st h r \<Longrightarrow> settled (applyStateUpdates st h us) h r"
  by (induction us arbitrary: st) (auto intro: settled_step)

lemma settled_noop:
  "settled st h (causingEventRef u) \<Longrightarrow> \<exists>err. applyStateUpdate st h u = (st, Inl err)"
  by (auto simp: settled_def applyStateUpdate_def split: option.splits)

lemma applyStateUpdates_append:
  "applyStateUpdates st h (us @ vs) = applyStateUpdates (applyStateUpdates st h us) h vs"
  by (induction us arbitrary: st) auto

text \<open>
  C2. Once an update has been applied to an order, applying an update with the same
  \<open>causingEventRef\<close> again, at once or after other updates, is refused and leaves the
  store, hence the order's state and \<open>remainingFillableAmount\<close>, exactly as it was.
\<close>

theorem applyStateUpdate_idempotent:
  assumes "causingEventRef u' = causingEventRef u"
  shows "(\<exists>err. applyStateUpdate (applyStateUpdates st h (us @ u # vs)) h u' =
            (applyStateUpdates st h (us @ u # vs), Inl err))
         \<and> applyStateUpdates st h (us @ u # vs @ [u']) = applyStateUpdates st h (us @ u # vs)"
proof -
  let ?st1 = "fst (applyStateUpdate (applyStateUpdates st h us) h u)"
  let ?st2 = "applyStateUpdates st h (us @ u # vs)"
  have "settled ?st1 h (causingEventRef u')"
    using settled_after[of "applyStateUpdates st h us" h u] assms by simp
  then have "settled (applyStateUpdates ?st1 h vs) h (causingEventRef u')"
    by (rule settled_steps)
  then have "settled ?st2 h (causingEventRef u')"
    by (simp add: applyStateUpdates_append)
  then obtain err where e: "applyStateUpdate ?st2 h u' = (?st2, Inl err)"
    using settled_noop by blast
  have "applyStateUpdates st h (us @ u # vs @ [u']) = applyStateUpdates ?st2 h [u']"
    using applyStateUpdates_append[of st h "us @ u # vs" "[u']"] by simp
  with e show ?thesis by auto
qed

theorem applyStateUpdate_idempotent_witness:
  "causingEventRef fill2 = causingEventRef fill2
   \<and> applyStateUpdates store0 ''0xa'' ([fill1] @ fill2 # [] @ [fill2])
       = applyStateUpdates store0 ''0xa'' ([fill1] @ fill2 # [])
   \<and> map_option remainingFillableAmount
        (applyStateUpdates store0 ''0xa'' [fill1, fill2, fill2] ''0xa'') = Some 20"
  using applyStateUpdate_idempotent[of fill2 fill2 store0 "''0xa''" "[fill1]" "[]"]
  by (simp add: store0_def order_a_def fill1_def fill2_def applyStateUpdate_def)








lemma applyUpdate_twice:
  "fst (applyUpdate (fst (applyUpdate st h u)) h u) = fst (applyUpdate st h u)"
  by (auto simp: applyUpdate_def applyStateUpdate_def keeps_invariants_def
      split: option.splits)



subsection \<open>The order watcher\<close>





subsection \<open>Startup\<close>

lemma passes_env_up: "req_method req \<noteq> OPTIONS \<Longrightarrow> passes_middleware env_up req"
  by (simp add: passes_middleware_def env_up_def pass_def cors_default_def)

lemma lower_healthcheck: "lower ''/healthcheck'' = ''/healthcheck''"
  by (simp add: lower_def lower_char_def)











subsection \<open>Requests\<close>

lemma handle_healthcheck:
  "route_applies GET ''/healthcheck'' req \<Longrightarrow> passes_middleware E req \<Longrightarrow>
   handle (app_layers E) req =
     (middleware_effects E req, \<lparr>res_status = 200, res_body = StatusText ''OK''\<rparr>)"
  by (auto simp: handle_def app_layers_def passes_middleware_def middleware_effects_def
      middleware_def route_def healthcheck_def split: prod.splits)

lemma handle_healthcheck_watcher:
  "route_applies GET ''/healthcheck'' req \<Longrightarrow> passes_middleware E req \<Longrightarrow>
   handle (app_layers_watcher E) req =
     (middleware_effects E req, \<lparr>res_status = 200, res_body = StatusText ''OK''\<rparr>)"
  by (auto simp: handle_def app_layers_watcher_def passes_middleware_def middleware_effects_def
      middleware_def route_def healthcheck_def split: prod.splits)

lemma route_get_health: "route_applies GET ''/healthcheck'' get_health"
  by (simp add: route_applies_def path_match_def strip_slash_def get_health_def lower_healthcheck)

text \<open>
  C8. The handler of \<open>/healthcheck\<close> answers 200 whatever the request and the pending
  state, with no effect of its own; and a GET request for that path which the middleware
  before the route lets through is answered 200 by both stacks, with no effect besides
  those of that middleware.
\<close>

theorem healthcheck_200:
  "healthcheck pending req = ([], Respond \<lparr>res_status = 200, res_body = StatusText ''OK''\<rparr>)
   \<and> (req_method req = GET \<and> path_match ''/healthcheck'' (req_path req)
        \<and> passes_middleware E req \<longrightarrow>
      handle (app_layers E) req =
        (middleware_effects E req, \<lparr>res_status = 200, res_body = StatusText ''OK''\<rparr>)
      \<and> handle (app_layers_watcher E) req =
        (middleware_effects E req, \<lparr>res_status = 200, res_body = StatusText ''OK''\<rparr>))"
  using handle_healthcheck[of req E] handle_healthcheck_watcher[of req E]
  by (simp add: healthcheck_def route_applies_def)

theorem healthcheck_200_witness:
  "req_method get_health = GET \<and> path_match ''/healthcheck'' (req_path get_health)
   \<and> passes_middleware env_up get_health
   \<and> handle (app_layers env_up) get_health =
       ([], \<lparr>res_status = 200, res_body = StatusText ''OK''\<rparr>)
   \<and> handle (app_layers_watcher env_up) get_health =
       ([], \<lparr>res_status = 200, res_body = StatusText ''OK''\<rparr>)"
  using healthcheck_200[of None get_health env_up] route_get_health passes_env_up[of get_health]
  by (simp add: route_applies_def middleware_effects_def env_up_def pass_def cors_default_def
        get_health_def)















subsection \<open>Amounts\<close>

lemma show_nat_bound: "0 < k \<Longrightarrow> n < 10 ^ k \<Longrightarrow> length (show_nat n) \<le> k"
proof (induction n arbitrary: k rule: show_nat.induct)
  case (1 n)
  show ?case
  proof (cases "n < 10")
    case True
    then show ?thesis using 1(2) by (simp add: show_nat.simps[of n])
  next
    case False
    then obtain j where k: "k = Suc j" using 1(2) by (cases k) auto
    have j0: "0 < j" using False 1(3) k by (cases j) auto
    have "n div 10 < 10 ^ j" using 1(3) k by (simp add: less_mult_imp_div_less mult.commute)
    then have "length (show_nat (n div 10)) \<le> j" using 1(1)[OF False j0] by simp
    then show ?thesis using False k by (simp add: show_nat.simps[of n])
  qed
qed

lemma char_of_48: "char_of (48::nat) = CHR ''0''"
  by code_simp

lemma show_nat_1: "show_nat (Suc 0) = ''1''"
  by code_simp

lemma show_nat_1000: "show_nat 1000 = ''1000''"
  by code_simp

lemma show_nat_times10: "0 < m \<Longrightarrow> show_nat (10 * m) = show_nat m @ ''0''"
  by (simp add: show_nat.simps[of "10 * m"] char_of_48)

lemma show_nat_pow10: "show_nat (10 ^ k) = CHR ''1'' # replicate k (CHR ''0'')"
proof (induction k)
  case 0
  show ?case by (simp add: show_nat_1)
next
  case (Suc k)
  have "show_nat (10 * 10 ^ k) = show_nat (10 ^ k) @ ''0''"
    by (rule show_nat_times10) simp
  then show ?case using Suc by (simp add: replicate_append_same)
qed

lemma show_nat_nonempty: "show_nat n \<noteq> []"
  by (simp add: show_nat.simps[of n])

lemma toString_fixed:
  assumes "0 < k" and "n < 10 ^ k"
  shows "toString \<lparr>TO_EXP_NEG = - int k, TO_EXP_POS = int k\<rparr> n = show_nat n"
proof -
  have le: "length (show_nat n) \<le> k" using assms by (rule show_nat_bound)
  have pos: "0 < length (show_nat n)" using show_nat_nonempty[of n] by simp
  have "\<not> bn_exponent n \<le> - int k" using pos assms(1) unfolding bn_exponent_def by linarith
  moreover have "\<not> int k \<le> bn_exponent n" using le pos unfolding bn_exponent_def by linarith
  ultimately show ?thesis by (simp add: toString_def toFixedPoint_def)
qed

lemma strip_zeros_pow10: "strip_zeros (CHR ''1'' # replicate k (CHR ''0'')) = ''1''"
proof -
  have "dropWhile (\<lambda>c. c = CHR ''0'') (replicate k (CHR ''0'') @ ''1'') = ''1''"
    by (induction k) auto
  then show ?thesis by (simp add: strip_zeros_def)
qed

lemma toString_pow10:
  "0 < k \<Longrightarrow>
   toString \<lparr>TO_EXP_NEG = - int k, TO_EXP_POS = int k\<rparr> (10 ^ k) = ''1e+'' @ show_nat k"
  by (simp add: toString_def bn_exponent_def toExponential_def show_nat_pow10 strip_zeros_pow10
      Let_def)

lemma bn_apply_append: "bn_apply c (xs @ ys) = bn_apply (bn_apply c xs) ys"
  by (induction c xs rule: bn_apply.induct) auto

lemma configured:
  "bn_apply bn_default module_init = \<lparr>TO_EXP_NEG = - int 1000, TO_EXP_POS = int 1000\<rparr>"
  by (simp add: module_init_def)

lemma createApp_keeps_config: "bn_apply c (fst (createApp E)) = c"
  by (simp add: createApp_def Let_def bn_apply_append split: option.splits)

lemma createApp_watcher_keeps_config: "bn_apply c (fst (createApp_watcher E)) = c"
  by (simp add: createApp_watcher_def Let_def bn_apply_append split: option.splits sum.splits)

text \<open>
  C10. The module configures \<open>EXPONENTIAL_AT = 1000\<close> when it is loaded, and
  nothing \<open>createApp\<close> does afterwards changes that; under this configuration every amount
  below \<open>10^1000\<close> is printed in fixed-point notation, as its decimal digits.
\<close>

theorem amounts_fixed_point_below_limit:
  "bn_apply bn_default (module_init @ fst (createApp E)) = \<lparr>TO_EXP_NEG = -1000, TO_EXP_POS = 1000\<rparr>
   \<and> bn_apply bn_default (module_init @ fst (createApp_watcher E))
       = \<lparr>TO_EXP_NEG = -1000, TO_EXP_POS = 1000\<rparr>
   \<and> (n < 10 ^ 1000 \<longrightarrow> toString (bn_apply bn_default module_init) n = show_nat n)"
proof (intro conjI impI)
  show "bn_apply bn_default (module_init @ fst (createApp E))
          = \<lparr>TO_EXP_NEG = -1000, TO_EXP_POS = 1000\<rparr>"
    by (simp add: bn_apply_append createApp_keeps_config module_init_def)
  show "bn_apply bn_default (module_init @ fst (createApp_watcher E))
          = \<lparr>TO_EXP_NEG = -1000, TO_EXP_POS = 1000\<rparr>"
    by (simp add: bn_apply_append createApp_watcher_keeps_config module_init_def)
next
  assume small: "n < 10 ^ 1000"
  have k: "0 < (1000::nat)" by simp
  show "toString (bn_apply bn_default module_init) n = show_nat n"
    unfolding configured using toString_fixed[OF k small] .
qed

theorem amounts_fixed_point_below_limit_witness:
  "(1000::nat) < 10 ^ 1000 \<and> toString (bn_apply bn_default module_init) 1000 = ''1000''"
proof -
  have e: "(1000::nat) = 10 ^ 3" by simp
  have "(10::nat) ^ 3 < 10 ^ 1000" by (rule power_strict_increasing) simp_all
  then have h: "(1000::nat) < 10 ^ 1000" by (subst e)
  from amounts_fixed_point_below_limit[of env_up 1000] h
  have "toString (bn_apply bn_default module_init) 1000 = show_nat 1000" by blast
  with h show ?thesis unfolding show_nat_1000 by blast
qed

theorem amount_at_limit_exponential_counterexample:
  "toString (bn_apply bn_default module_init) (10 ^ 1000) = ''1e+1000''"
proof -
  have "toString \<lparr>TO_EXP_NEG = - int 1000, TO_EXP_POS = int 1000\<rparr> (10 ^ 1000)
          = ''1e+'' @ show_nat 1000"
    by (rule toString_pow10) simp
  also have "''1e+'' @ show_nat 1000 = ''1e+1000''" unfolding show_nat_1000 by simp
  finally show ?thesis unfolding configured .
qed

end
